theory Spec2Isabelle
  imports Main "HOL-Library.Sublist"
begin

section \<open>JavaScript values, errors and the runtime\<close>

text \<open>
  The module \<^verbatim>\<open>index.js\<close> exports one function, \<^verbatim>\<open>downloadOrBuildPurescript(...args)\<close>,
  which returns an Observable. Everything it does happens in the subscriber function and in
  the callbacks that function registers. The arguments are arbitrary JavaScript values;
  a function value is modelled by what it returns on a string argument (the only function
  the code ever calls is \<^verbatim>\<open>options.rename\<close>, on the default binary name).
\<close>

datatype jsval =
    JUndefined
  | JNull
  | JBool bool
  | JNum int
  | JStr string
  | JArr "jsval list"
  | JObj "(string \<times> jsval) list"
  | JFun "string \<Rightarrow> jsval"

text \<open>An \<^verbatim>\<open>Error\<close> object: its constructor name, message, \<^verbatim>\<open>code\<close> and \<^verbatim>\<open>id\<close> properties.\<close>

record js_error =
  ename :: string
  emessage :: string
  ecode :: "string option"
  eid :: "string option"

text \<open>
  What the code takes from Node and from its dependencies without defining it:
  \<^verbatim>\<open>process.platform\<close>, \<^verbatim>\<open>__dirname\<close>, \<^verbatim>\<open>downloadPurescript.defaultVersion\<close>, the functions
  \<^verbatim>\<open>resolve\<close>, \<^verbatim>\<open>join\<close> and \<^verbatim>\<open>basename\<close> of \<^verbatim>\<open>path\<close>, the printers \<^verbatim>\<open>inspect\<close> and
  \<^verbatim>\<open>inspectWithKind\<close>, and the string coercion of template literals.
\<close>

record runtime =
  process_platform :: string
  dirname :: string
  defaultVersion :: string
  path_resolve :: "string \<Rightarrow> string \<Rightarrow> string"
  path_join :: "string \<Rightarrow> string \<Rightarrow> string"
  path_basename :: "string \<Rightarrow> string \<Rightarrow> string"
  inspect :: "jsval \<Rightarrow> string"
  inspectWithKind :: "jsval \<Rightarrow> string"
  to_string :: "jsval \<Rightarrow> string"

fun truthy :: "jsval \<Rightarrow> bool" where
  "truthy JUndefined = False"
| "truthy JNull = False"
| "truthy (JBool b) = b"
| "truthy (JNum n) = (n \<noteq> 0)"
| "truthy (JStr s) = (s \<noteq> [])"
| "truthy (JArr _) = True"
| "truthy (JObj _) = True"
| "truthy (JFun _) = True"

text \<open>\<^verbatim>\<open>v === 'literal'\<close> for a string literal.\<close>

fun is_str :: "jsval \<Rightarrow> string \<Rightarrow> bool" where
  "is_str (JStr s) t = (s = t)"
| "is_str _ t = False"

fun is_undefined :: "jsval \<Rightarrow> bool" where
  "is_undefined JUndefined = True"
| "is_undefined _ = False"

text \<open>Property access \<^verbatim>\<open>options[name]\<close>: a missing property reads as \<^verbatim>\<open>undefined\<close>.\<close>

definition get_prop :: "(string \<times> jsval) list \<Rightarrow> string \<Rightarrow> jsval" where
  "get_prop obj name = (case map_of obj name of None \<Rightarrow> JUndefined | Some v \<Rightarrow> v)"

text \<open>\<^verbatim>\<open>a || b\<close>\<close>

definition js_or :: "jsval \<Rightarrow> jsval \<Rightarrow> jsval" where
  "js_or a b = (if truthy a then a else b)"

text \<open>\<^verbatim>\<open>s.replace(pat, rep)\<close> with a string pattern: the first occurrence only.\<close>

fun replace_first :: "string \<Rightarrow> string \<Rightarrow> string \<Rightarrow> string" where
  "replace_first pat rep [] = (if pat = [] then rep else [])"
| "replace_first pat rep (c # cs) =
     (if prefix pat (c # cs) then rep @ drop (length pat) (c # cs)
      else c # replace_first pat rep cs)"

definition mk_error :: "string \<Rightarrow> string \<Rightarrow> js_error" where
  "mk_error k m = \<lparr>ename = k, emessage = m, ecode = None, eid = None\<rparr>"

section \<open>The module's top level\<close>

definition DIR_ERROR :: string where
  "DIR_ERROR = ''Expected a path where the PureScript binary will be installed''"

definition getPlatformBinName :: "jsval \<Rightarrow> string" where
  "getPlatformBinName platform = ''purs'' @ (if is_str platform ''win32'' then ''.exe'' else '''')"

definition addId :: "js_error \<Rightarrow> string \<Rightarrow> js_error" where
  "addId obj i = obj\<lparr>eid := Some i\<rparr>"

definition unsupportedOptions :: "string list" where
  "unsupportedOptions = [''filter'', ''revision'']"

definition initialBinName :: "runtime \<Rightarrow> string" where
  "initialBinName r = getPlatformBinName (JStr (process_platform r))"

section \<open>Argument validation (lines 40 to 85)\<close>

definition quote2 :: string where
  "quote2 = [CHR 0x27, CHR 0x27]"

text \<open>The loop over \<^verbatim>\<open>unsupportedOptions\<close>: the first one that is set throws.\<close>

fun check_unsupported :: "runtime \<Rightarrow> (string \<times> jsval) list \<Rightarrow> string list \<Rightarrow> js_error option" where
  "check_unsupported r options [] = None"
| "check_unsupported r options (optionName # rest) =
     (let val = get_prop options optionName in
      if \<not> is_undefined val
      then Some (mk_error ''Error''
             (''`'' @ optionName @ ''` option is not supported, but '' @ inspect r val
               @ '' was provided to it.''))
      else check_unsupported r options rest)"

fun is_function :: "jsval \<Rightarrow> bool" where
  "is_function (JFun _) = True"
| "is_function _ = False"

definition check_options :: "runtime \<Rightarrow> jsval \<Rightarrow> js_error + (string \<times> jsval) list" where
  "check_options r options =
     (case options of
        JObj props \<Rightarrow>
          if \<not> is_undefined (get_prop props ''rename'') \<and> \<not> is_function (get_prop props ''rename'')
          then Inl (mk_error ''TypeError''
                 (''`rename` option must be a function, but ''
                   @ inspectWithKind r (get_prop props ''rename'') @ '' was provided.''))
          else (case check_unsupported r props unsupportedOptions of
                  Some e \<Rightarrow> Inl e
                | None \<Rightarrow> Inr props)
      | _ \<Rightarrow>
          Inl (mk_error ''TypeError''
            (''Expected an object to specify options of install-purescript, but got ''
              @ inspectWithKind r options @ ''.'')))"

text \<open>
  \<^verbatim>\<open>const [dir, options = {}] = args\<close>: the default applies when the second argument is
  missing or \<^verbatim>\<open>undefined\<close>.
\<close>

definition arg_options :: "jsval list \<Rightarrow> jsval" where
  "arg_options args =
     (case args of
        [_, v] \<Rightarrow> (if is_undefined v then JObj [] else v)
      | _ \<Rightarrow> JObj [])"

definition check_args :: "runtime \<Rightarrow> jsval list \<Rightarrow> js_error + (string \<times> (string \<times> jsval) list)" where
  "check_args r args =
     (let argLen = length args in
      if argLen \<noteq> 1 \<and> argLen \<noteq> 2
      then Inl (mk_error ''RangeError''
             (''Expected 1 or 2 arguments (<string>[, <Object>]), but got ''
               @ (if argLen = 0 then ''no'' else to_string r (JNum (int argLen)))
               @ '' arguments.''))
      else
        (case hd args of
           JStr dir \<Rightarrow>
             if length dir = 0
             then Inl (mk_error ''Error''
                    (DIR_ERROR @ '', but got '' @ quote2 @ '' (empty string).''))
             else if argLen = 2
             then (case check_options r (arg_options args) of
                     Inl e \<Rightarrow> Inl e
                   | Inr props \<Rightarrow> Inr (dir, props))
             else Inr (dir, [])
         | v \<Rightarrow>
             Inl (mk_error ''TypeError''
               (DIR_ERROR @ '', but got '' @ inspectWithKind r v @ ''.''))))"

section \<open>The identifiers and other string constants of the code\<close>

text \<open>
  The string literals of \<^verbatim>\<open>index.js\<close>, each under a name: the \<^verbatim>\<open>id\<close> of the events it
  sends and of the errors it tags, the two arguments of \<^verbatim>\<open>id.replace('download',
  'download-source')\<close>, and the error code it compares \<^verbatim>\<open>err.code\<close> with.
\<close>

definition id_head :: string where
  "id_head = ''head''"

definition id_head_complete :: string where
  "id_head_complete = ''head:complete''"

definition id_head_fail :: string where
  "id_head_fail = ''head:fail''"

definition id_download_binary :: string where
  "id_download_binary = ''download-binary''"

definition id_download_binary_complete :: string where
  "id_download_binary_complete = ''download-binary:complete''"

definition id_download_binary_fail :: string where
  "id_download_binary_fail = ''download-binary:fail''"

definition id_check_binary :: string where
  "id_check_binary = ''check-binary''"

definition id_check_binary_complete :: string where
  "id_check_binary_complete = ''check-binary:complete''"

definition id_check_binary_fail :: string where
  "id_check_binary_fail = ''check-binary:fail''"

definition id_check_stack :: string where
  "id_check_stack = ''check-stack''"

definition id_check_stack_complete :: string where
  "id_check_stack_complete = ''check-stack:complete''"

definition id_build :: string where
  "id_build = ''build''"

definition id_build_complete :: string where
  "id_build_complete = ''build:complete''"

definition str_download :: string where
  "str_download = ''download''"

definition str_download_source :: string where
  "str_download_source = ''download-source''"

definition ERR_UNSUPPORTED_PLATFORM :: string where
  "ERR_UNSUPPORTED_PLATFORM = ''ERR_UNSUPPORTED_PLATFORM''"

section \<open>Events, notifications and calls to collaborators\<close>

text \<open>
  The objects passed to \<^verbatim>\<open>observer.next\<close>: a bare \<^verbatim>\<open>{id}\<close>, a \<^verbatim>\<open>{id, error}\<close> pair (the
  three \<^verbatim>\<open>:fail\<close> events), the \<^verbatim>\<open>stackCheckResult\<close> object (\<^verbatim>\<open>id\<close>, \<^verbatim>\<open>path\<close>, \<^verbatim>\<open>version\<close>), and
  a progress object of the download or the build service whose \<^verbatim>\<open>id\<close> was rewritten (the
  rest of the object is kept as an opaque payload).
\<close>

datatype event =
    Ev string
  | EvFail string js_error
  | EvStack string jsval string
  | EvProgress string string

fun event_id :: "event \<Rightarrow> string" where
  "event_id (Ev i) = i"
| "event_id (EvFail i _) = i"
| "event_id (EvStack i _ _) = i"
| "event_id (EvProgress i _) = i"

text \<open>
  What the consumer's observer receives, in order. \<open>Complete\<close> carries the argument of the
  call \<^verbatim>\<open>observer.complete(...)\<close>.
\<close>

datatype notification = Next event | Error js_error | Complete jsval

text \<open>
  The calls the code makes to its collaborators, in order. The three subscriptions it holds
  are the one that validates the build options (\<^verbatim>\<open>tmpSubscription\<close>) and the two members
  of \<^verbatim>\<open>subscriptions\<close>.
\<close>

datatype sub_name = ValidateSub | DownloadSub | BuildSub

datatype action =
    ABuildValidate string "(string \<times> jsval) list"
  | ASetImmediate
  | AWhich
  | ASpawnStack
  | APrepareWrite string
  | ADownload string
  | AFilter string "string option"
  | AExecFile string
  | ABuild string "(string \<times> jsval) list"
  | ARename string string
  | AUnsubscribe sub_name

section \<open>Name resolution (lines 87 to 113)\<close>

record config =
  rt :: runtime
  dir :: string
  options :: "(string \<times> jsval) list"
  version :: jsval
  isDifferentPlatform :: bool
  buildOptions :: "(string \<times> jsval) list"
  defaultBinName :: string
  binName :: string
  binPath :: string

text \<open>
  \<^verbatim>\<open>options.platform && options.platform !== process.platform\<close>, as the conditions that
  read it see it.
\<close>

definition is_different_platform :: "runtime \<Rightarrow> (string \<times> jsval) list \<Rightarrow> bool" where
  "is_different_platform r opts =
     (truthy (get_prop opts ''platform'')
      \<and> \<not> is_str (get_prop opts ''platform'') (process_platform r))"

text \<open>
  \<^verbatim>\<open>{revision: `v${version}`, ...options}\<close>: a property of \<^verbatim>\<open>options\<close> wins over the
  \<^verbatim>\<open>revision\<close> written first (\<open>get_prop\<close> reads the first binding).
\<close>

definition build_options :: "runtime \<Rightarrow> (string \<times> jsval) list \<Rightarrow> jsval \<Rightarrow> (string \<times> jsval) list" where
  "build_options r opts v = opts @ [(''revision'', JStr (''v'' @ to_string r v))]"

definition default_bin_name :: "runtime \<Rightarrow> (string \<times> jsval) list \<Rightarrow> string" where
  "default_bin_name r opts =
     getPlatformBinName (js_or (get_prop opts ''platform'') (JStr (process_platform r)))"

text \<open>
  \<^verbatim>\<open>options.rename ? options.rename(defaultBinName) : defaultBinName\<close>; after
  \<open>check_options\<close> the option is a function or \<^verbatim>\<open>undefined\<close>.
\<close>

definition renamed :: "(string \<times> jsval) list \<Rightarrow> string \<Rightarrow> jsval" where
  "renamed opts d = (case get_prop opts ''rename'' of JFun f \<Rightarrow> f d | _ \<Rightarrow> JStr d)"

definition check_bin_name :: "runtime \<Rightarrow> jsval \<Rightarrow> js_error + string" where
  "check_bin_name r b =
     (case b of
        JStr n \<Rightarrow>
          if length n = 0
          then Inl (mk_error ''Error''
                 (''Expected `rename` option to be a function that returns a new binary name, but returned ''
                   @ quote2 @ '' (empty string).''))
          else Inr n
      | _ \<Rightarrow>
          Inl (mk_error ''TypeError''
            (''Expected `rename` option to be a function that returns a string, but returned ''
              @ inspectWithKind r b @ ''.'')))"

definition mk_config :: "runtime \<Rightarrow> string \<Rightarrow> (string \<times> jsval) list \<Rightarrow> string \<Rightarrow> config" where
  "mk_config r d opts n =
     (let v = js_or (get_prop opts ''version'') (JStr (defaultVersion r)) in
      \<lparr>rt = r, dir = d, options = opts, version = v,
       isDifferentPlatform = is_different_platform r opts,
       buildOptions = build_options r opts v,
       defaultBinName = default_bin_name r opts,
       binName = n,
       binPath = path_resolve r d n\<rparr>)"

section \<open>The state of one subscription\<close>

text \<open>
  A subscription to a collaborator's Observable: not made yet, live, settled (its error or
  complete callback has run) or unsubscribed by the cleanup function.
\<close>

datatype sub = Idle | Active | Settled | Released

text \<open>
  The toolchain probe is \<^verbatim>\<open>which('stack', callback)\<close> followed, inside the callback, by
  \<^verbatim>\<open>await spawnStack(...)\<close>. Neither returns a handle that the code keeps.
\<close>

datatype probe_state = WhichPending | SpawnPending | ProbeDone

record stack_check =
  spath :: jsval
  sversion :: string
  serror :: "js_error option"

text \<open>
  The variables the subscriber function closes over, the observer's \<^verbatim>\<open>closed\<close> flag and
  what was delivered (\<open>out\<close>), the calls made so far (\<open>acts\<close>), and the callbacks that are
  still outstanding (\<open>renames\<close> holds, for each \<^verbatim>\<open>rename\<close> that has not answered, the \<^verbatim>\<open>id\<close>
  and the payload of the \<^verbatim>\<open>progress\<close> object its callback closes over). \<open>feintCalled\<close> is the memory of \<^verbatim>\<open>feint\<close> (its first call was made),
  \<open>headDone\<close> that of \<^verbatim>\<open>once\<close>, \<open>dlErrorReplaced\<close> says that \<^verbatim>\<open>downloadObserver.error\<close> was
  reassigned to \<^verbatim>\<open>handleBinaryDownloadError\<close>. \<open>fired\<close> counts the executions of the function
  wrapped by \<^verbatim>\<open>feint\<close>; nothing reads it.
\<close>

record state =
  out :: "notification list"
  acts :: "action list"
  closed :: bool
  stackCheckResult :: stack_check
  binaryPathError :: "js_error option"
  feintCalled :: bool
  fired :: nat
  headDone :: bool
  dlErrorReplaced :: bool
  tmpSub :: sub
  dlSub :: sub
  buildSub :: sub
  probe :: probe_state
  prepPending :: bool
  execPending :: bool
  renames :: "(string \<times> string) list"

section \<open>The observer\<close>

text \<open>
  The observer handed to the subscriber function follows the Observable contract of
  \<^verbatim>\<open>zen-observable\<close>: once closed (by \<^verbatim>\<open>error\<close>, \<^verbatim>\<open>complete\<close> or the consumer's
  \<^verbatim>\<open>unsubscribe\<close>) it ignores every call, and closing runs the cleanup function the
  subscriber returned, here \<^verbatim>\<open>cancelBuildOrDownloadPurescript\<close>, which unsubscribes each
  member of \<^verbatim>\<open>subscriptions\<close>: the download subscription and, once added, the build
  subscription.
\<close>

fun release :: "sub \<Rightarrow> sub" where
  "release Active = Released"
| "release x = x"

definition unsub_acts :: "sub_name \<Rightarrow> sub \<Rightarrow> action list" where
  "unsub_acts name x = (if x = Idle then [] else [AUnsubscribe name])"

definition cancelBuildOrDownloadPurescript :: "state \<Rightarrow> state" where
  "cancelBuildOrDownloadPurescript s =
     s\<lparr>acts := acts s @ unsub_acts DownloadSub (dlSub s) @ unsub_acts BuildSub (buildSub s),
       dlSub := release (dlSub s),
       buildSub := release (buildSub s)\<rparr>"

definition obs_next :: "event \<Rightarrow> state \<Rightarrow> state" where
  "obs_next e s = (if closed s then s else s\<lparr>out := out s @ [Next e]\<rparr>)"

definition obs_error :: "js_error \<Rightarrow> state \<Rightarrow> state" where
  "obs_error e s =
     (if closed s then s
      else cancelBuildOrDownloadPurescript (s\<lparr>out := out s @ [Error e], closed := True\<rparr>))"

definition obs_complete :: "state \<Rightarrow> state" where
  "obs_complete s =
     (if closed s then s
      else cancelBuildOrDownloadPurescript
             (s\<lparr>out := out s @ [Complete JUndefined], closed := True\<rparr>))"

definition unsubscribe :: "state \<Rightarrow> state" where
  "unsubscribe s =
     (if closed s then s else cancelBuildOrDownloadPurescript (s\<lparr>closed := True\<rparr>))"

section \<open>The callbacks of the subscriber function\<close>

definition sendError :: "js_error \<Rightarrow> string \<Rightarrow> state \<Rightarrow> state" where
  "sendError err i s = obs_error (addId err i) s"

text \<open>The function wrapped by \<^verbatim>\<open>feint\<close> (lines 120 to 157).\<close>

definition startBuild_body :: "config \<Rightarrow> state \<Rightarrow> state" where
  "startBuild_body c s0 =
     (let s = s0\<lparr>fired := Suc (fired s0)\<rparr> in
      case serror (stackCheckResult s) of
        Some err \<Rightarrow> sendError err id_check_stack s
      | None \<Rightarrow>
          (let s1 = obs_next (EvStack id_check_stack (spath (stackCheckResult s))
                                (sversion (stackCheckResult s))) s;
               s2 = obs_next (Ev id_check_stack_complete) s1
           in s2\<lparr>acts := acts s2 @ [ABuild (dir c) (buildOptions c)], buildSub := Active\<rparr>))"

text \<open>
  \<^verbatim>\<open>feint(fn)\<close> is a function that does nothing at its first call and calls \<^verbatim>\<open>fn\<close> at
  every later one.
\<close>

definition startBuild :: "config \<Rightarrow> state \<Rightarrow> state" where
  "startBuild c s = (if feintCalled s then startBuild_body c s else s\<lparr>feintCalled := True\<rparr>)"

definition startBuildIfNeeded :: "config \<Rightarrow> state \<Rightarrow> state" where
  "startBuildIfNeeded c s = (if closed s then s else startBuild c s)"

text \<open>The observer of the build subscription (lines 130 to 155) and the callback of \<^verbatim>\<open>rename\<close>.\<close>

definition build_next :: "config \<Rightarrow> string \<Rightarrow> string \<Rightarrow> state \<Rightarrow> state" where
  "build_next c i payload s =
     (if i = id_build_complete
      then s\<lparr>acts := acts s @ [ARename (path_resolve (rt c) (dir c) (initialBinName (rt c)))
                                       (binPath c)],
             renames := renames s @ [(i, payload)]\<rparr>
      else obs_next (EvProgress (replace_first str_download str_download_source i) payload) s)"

definition rename_done :: "js_error option \<Rightarrow> state \<Rightarrow> state" where
  "rename_done r s =
     (case renames s of
        [] \<Rightarrow> s
      | (i, payload) # rest \<Rightarrow>
          (let s1 = s\<lparr>renames := rest\<rparr> in
           case r of
             Some err \<Rightarrow> sendError err id_build s1
           | None \<Rightarrow> obs_complete (obs_next (EvProgress i payload) s1)))"

text \<open>
  \<^verbatim>\<open>sendError(err, err.id.replace(...))\<close>: on an error without an \<^verbatim>\<open>id\<close> the handler
  itself throws before it sends anything.
\<close>

definition build_error :: "js_error \<Rightarrow> state \<Rightarrow> state" where
  "build_error err s =
     (case eid err of
        Some i \<Rightarrow> sendError err (replace_first str_download str_download_source i) s
      | None \<Rightarrow> s)"

text \<open>The callback of \<^verbatim>\<open>which\<close> (lines 167 to 177), in its two halves around the \<^verbatim>\<open>await\<close>.\<close>

definition which_done :: "jsval \<Rightarrow> state \<Rightarrow> state" where
  "which_done stackPath s =
     s\<lparr>stackCheckResult := (stackCheckResult s)\<lparr>spath := stackPath\<rparr>,
       acts := acts s @ [ASpawnStack],
       probe := SpawnPending\<rparr>"

definition spawn_done :: "config \<Rightarrow> js_error + string \<Rightarrow> state \<Rightarrow> state" where
  "spawn_done c r s =
     startBuildIfNeeded c
       (case r of
          Inr stdout \<Rightarrow>
            s\<lparr>stackCheckResult := (stackCheckResult s)\<lparr>sversion := stdout\<rparr>, probe := ProbeDone\<rparr>
        | Inl err \<Rightarrow>
            s\<lparr>stackCheckResult := (stackCheckResult s)\<lparr>serror := Some err\<rparr>, probe := ProbeDone\<rparr>)"

text \<open>\<^verbatim>\<open>handleBinaryDownloadError\<close> (lines 179 to 193).\<close>

definition handleBinaryDownloadError :: "config \<Rightarrow> js_error \<Rightarrow> state \<Rightarrow> state" where
  "handleBinaryDownloadError c err0 s =
     (let err = addId err0 id_download_binary in
      if isDifferentPlatform c then obs_error err s
      else startBuildIfNeeded c (obs_next (EvFail id_download_binary_fail err) s))"

text \<open>\<^verbatim>\<open>downloadObserver\<close> (lines 195 to 243).\<close>

definition download_next :: "string \<Rightarrow> state \<Rightarrow> state" where
  "download_next payload s = obs_next (EvProgress id_download_binary payload) s"

definition download_error_initial :: "config \<Rightarrow> js_error \<Rightarrow> state \<Rightarrow> state" where
  "download_error_initial c err s =
     (if ecode err = Some ERR_UNSUPPORTED_PLATFORM \<and> \<not> isDifferentPlatform c
      then startBuildIfNeeded c (obs_next (EvFail id_head_fail (addId err id_head)) s)
      else sendError err id_head s)"

definition download_error :: "config \<Rightarrow> js_error \<Rightarrow> state \<Rightarrow> state" where
  "download_error c err s =
     (if dlErrorReplaced s then handleBinaryDownloadError c err s
      else download_error_initial c err s)"

definition download_complete :: "config \<Rightarrow> state \<Rightarrow> state" where
  "download_complete c s =
     (let s1 = obs_next (Ev id_download_binary_complete) s in
      if isDifferentPlatform c then obs_complete s1
      else (let s2 = obs_next (Ev id_check_binary) s1 in
            s2\<lparr>acts := acts s2 @ [AExecFile (binPath c)], execPending := True\<rparr>))"

definition exec_done :: "config \<Rightarrow> (js_error \<times> string) option \<Rightarrow> state \<Rightarrow> state" where
  "exec_done c r s =
     (case r of
        Some (err0, stderr) \<Rightarrow>
          (let err = addId (err0\<lparr>emessage := emessage err0 @ [CHR 0x0A] @ stderr\<rparr>) id_check_binary
           in startBuildIfNeeded c (obs_next (EvFail id_check_binary_fail err) s))
      | None \<Rightarrow> obs_complete (obs_next (Ev id_check_binary_complete) s))"

text \<open>\<^verbatim>\<open>completeHead\<close> (lines 245 to 254), wrapped by \<^verbatim>\<open>once\<close>.\<close>

definition completeHead :: "state \<Rightarrow> state" where
  "completeHead s =
     (if headDone s then s
      else (let s1 = obs_next (Ev id_head_complete) (s\<lparr>headDone := True\<rparr>) in
            case binaryPathError s1 of
              Some err \<Rightarrow> sendError err id_download_binary s1
            | None \<Rightarrow> s1\<lparr>dlErrorReplaced := True\<rparr>))"

text \<open>The asynchronous function around \<^verbatim>\<open>prepareWrite\<close> (lines 256 to 272), after the \<^verbatim>\<open>await\<close>.\<close>

definition prepare_done :: "js_error option \<Rightarrow> state \<Rightarrow> state" where
  "prepare_done r s =
     (case r of
        None \<Rightarrow> s
      | Some err \<Rightarrow>
          (let s1 = s\<lparr>binaryPathError := Some err\<rparr> in
           if closed s1 then s1 else completeHead s1))"

text \<open>
  The \<^verbatim>\<open>filter\<close> option passed to the download (lines 276 to 288): what it returns is
  recorded, \<open>None\<close> for \<^verbatim>\<open>false\<close> and the new \<^verbatim>\<open>entry.absolute\<close> for \<^verbatim>\<open>true\<close>.
\<close>

definition filter_call :: "config \<Rightarrow> string \<Rightarrow> state \<Rightarrow> state" where
  "filter_call c path s =
     (let s1 = completeHead s in
      s1\<lparr>acts := acts s1 @
           [AFilter path
              (if path_basename (rt c) path ''.exe'' \<noteq> ''purs'' then None
               else Some (path_join (rt c) (dir c) (binName c)))]\<rparr>)"

section \<open>The subscriber function\<close>

text \<open>
  A valid request: the state when the subscriber function returns. In source order it
  subscribes to \<^verbatim>\<open>buildPurescript(__dirname, buildOptions)\<close> to have the build options
  validated, schedules the end of that subscription with \<^verbatim>\<open>setImmediate\<close>, calls
  \<^verbatim>\<open>which\<close>, starts \<^verbatim>\<open>prepareWrite(binPath)\<close>, subscribes to the download and sends \<^verbatim>\<open>head\<close>.
\<close>

definition init :: "config \<Rightarrow> state" where
  "init c =
     \<lparr>out = [Next (Ev id_head)],
      acts = [ABuildValidate (dirname (rt c)) (buildOptions c), ASetImmediate, AWhich,
              APrepareWrite (binPath c), ADownload (dir c)],
      closed = False,
      stackCheckResult = \<lparr>spath = JStr ''stack'', sversion = [], serror = None\<rparr>,
      binaryPathError = None,
      feintCalled = False,
      fired = 0,
      headDone = False,
      dlErrorReplaced = False,
      tmpSub = Active,
      dlSub = Active,
      buildSub = Idle,
      probe = WhichPending,
      prepPending = True,
      execPending = False,
      renames = []\<rparr>"

text \<open>
  A \<^verbatim>\<open>throw\<close> in the subscriber function ends it: the Observable delivers the thrown value
  as the stream's error and nothing else. \<open>Thrown\<close> keeps the calls made before the throw.
\<close>

datatype subscribed = Thrown js_error "action list" | Started config state

definition subscribe :: "runtime \<Rightarrow> jsval list \<Rightarrow> subscribed" where
  "subscribe r args =
     (case check_args r args of
        Inl e \<Rightarrow> Thrown e []
      | Inr (d, opts) \<Rightarrow>
          (case check_bin_name r (renamed opts (default_bin_name r opts)) of
             Inl e \<Rightarrow>
               Thrown e
                 [ABuildValidate (dirname r)
                    (build_options r opts (js_or (get_prop opts ''version'') (JStr (defaultVersion r)))),
                  ASetImmediate]
           | Inr n \<Rightarrow> Started (mk_config r d opts n) (init (mk_config r d opts n))))"

fun delivered :: "subscribed \<Rightarrow> notification list" where
  "delivered (Thrown e _) = [Error e]"
| "delivered (Started _ s) = out s"

section \<open>What can happen after the subscriber function has returned\<close>

text \<open>
  Each input is one callback invoked by the environment, or the consumer's
  \<^verbatim>\<open>unsubscribe\<close>. A callback runs only while it is outstanding: an Observable calls its
  observer only while the subscription is live, and \<^verbatim>\<open>which\<close>, \<^verbatim>\<open>spawnStack\<close>,
  \<^verbatim>\<open>prepareWrite\<close>, \<^verbatim>\<open>execFile\<close> and \<^verbatim>\<open>rename\<close> each answer once per call. The
  subscription to a collaborator is settled before its \<^verbatim>\<open>error\<close> or \<^verbatim>\<open>complete\<close> callback
  runs.
\<close>

datatype input =
    TmpBuildError js_error
  | Immediate
  | WhichDone jsval
  | SpawnStackDone "js_error + string"
  | PrepareWriteDone "js_error option"
  | FilterCall string
  | DownloadNext string
  | DownloadError js_error
  | DownloadComplete
  | ExecFileDone "(js_error \<times> string) option"
  | BuildNext string string
  | BuildError js_error
  | BuildComplete
  | RenameDone "js_error option"
  | Unsubscribe

fun step :: "config \<Rightarrow> state \<Rightarrow> input \<Rightarrow> state" where
  "step c s (TmpBuildError err) =
     (if tmpSub s = Active then obs_error err (s\<lparr>tmpSub := Settled\<rparr>) else s)"
| "step c s Immediate =
     (if tmpSub s = Active
      then s\<lparr>tmpSub := Released, acts := acts s @ [AUnsubscribe ValidateSub]\<rparr>
      else s)"
| "step c s (WhichDone stackPath) =
     (if probe s = WhichPending then which_done stackPath s else s)"
| "step c s (SpawnStackDone r) =
     (if probe s = SpawnPending then spawn_done c r s else s)"
| "step c s (PrepareWriteDone r) =
     (if prepPending s then prepare_done r (s\<lparr>prepPending := False\<rparr>) else s)"
| "step c s (FilterCall path) =
     (if dlSub s = Active then filter_call c path s else s)"
| "step c s (DownloadNext payload) =
     (if dlSub s = Active then download_next payload s else s)"
| "step c s (DownloadError err) =
     (if dlSub s = Active then download_error c err (s\<lparr>dlSub := Settled\<rparr>) else s)"
| "step c s DownloadComplete =
     (if dlSub s = Active then download_complete c (s\<lparr>dlSub := Settled\<rparr>) else s)"
| "step c s (ExecFileDone r) =
     (if execPending s then exec_done c r (s\<lparr>execPending := False\<rparr>) else s)"
| "step c s (BuildNext i payload) =
     (if buildSub s = Active then build_next c i payload s else s)"
| "step c s (BuildError err) =
     (if buildSub s = Active then build_error err (s\<lparr>buildSub := Settled\<rparr>) else s)"
| "step c s BuildComplete =
     (if buildSub s = Active then s\<lparr>buildSub := Settled\<rparr> else s)"
| "step c s (RenameDone r) = rename_done r s"
| "step c s Unsubscribe = unsubscribe s"

definition run :: "config \<Rightarrow> state \<Rightarrow> input list \<Rightarrow> state" where
  "run c s ins = foldl (step c) s ins"

section \<open>Reading a trace\<close>

text \<open>The three \<^verbatim>\<open>{id, error}\<close> events that precede a call of \<^verbatim>\<open>startBuildIfNeeded\<close>.\<close>

fun is_fail :: "notification \<Rightarrow> bool" where
  "is_fail (Next (EvFail _ _)) = True"
| "is_fail _ = False"

definition has_fail :: "notification list \<Rightarrow> bool" where
  "has_fail xs = list_ex is_fail xs"

fun is_ev :: "string \<Rightarrow> notification \<Rightarrow> bool" where
  "is_ev i (Next (Ev j)) = (i = j)"
| "is_ev i _ = False"

fun is_fail_ev :: "string \<Rightarrow> notification \<Rightarrow> bool" where
  "is_fail_ev i (Next (EvFail j _)) = (i = j)"
| "is_fail_ev i _ = False"

text \<open>The notifications that end a stream.\<close>

fun is_terminal :: "notification \<Rightarrow> bool" where
  "is_terminal (Next _) = False"
| "is_terminal _ = True"

definition terminals :: "notification list \<Rightarrow> notification list" where
  "terminals xs = filter is_terminal xs"

text \<open>What was delivered before the first \<^verbatim>\<open>head:complete\<close>.\<close>

definition before_head_complete :: "notification list \<Rightarrow> notification list" where
  "before_head_complete xs = takeWhile (\<lambda>n. \<not> is_ev id_head_complete n) xs"

text \<open>The arguments of the calls to the build, to \<^verbatim>\<open>execFile\<close>, to \<^verbatim>\<open>rename\<close> and of the
  accepted archive entries, and the values passed to \<^verbatim>\<open>complete\<close>.\<close>

fun is_build_act :: "action \<Rightarrow> bool" where
  "is_build_act (ABuild _ _) = True"
| "is_build_act _ = False"

definition build_started :: "action list \<Rightarrow> bool" where
  "build_started xs = list_ex is_build_act xs"

fun exec_path :: "action \<Rightarrow> string list" where
  "exec_path (AExecFile p) = [p]"
| "exec_path _ = []"

definition exec_paths :: "action list \<Rightarrow> string list" where
  "exec_paths xs = concat (map exec_path xs)"

fun rename_call :: "action \<Rightarrow> (string \<times> string) list" where
  "rename_call (ARename a b) = [(a, b)]"
| "rename_call _ = []"

definition rename_calls :: "action list \<Rightarrow> (string \<times> string) list" where
  "rename_calls xs = concat (map rename_call xs)"

fun entry_target :: "action \<Rightarrow> string list" where
  "entry_target (AFilter _ (Some t)) = [t]"
| "entry_target _ = []"

definition entry_targets :: "action list \<Rightarrow> string list" where
  "entry_targets xs = concat (map entry_target xs)"

fun completion :: "notification \<Rightarrow> jsval list" where
  "completion (Complete v) = [v]"
| "completion _ = []"

definition completions :: "notification list \<Rightarrow> jsval list" where
  "completions xs = concat (map completion xs)"

section \<open>Invariants of a run\<close>

text \<open>
  The state of the two-party join made with \<^verbatim>\<open>feint\<close>. The only callers of
  \<^verbatim>\<open>startBuildIfNeeded\<close> are the toolchain probe, once, and the three places that send a
  \<^verbatim>\<open>:fail\<close> event; a download that can still fail, or a verification that is still running,
  excludes that a \<^verbatim>\<open>:fail\<close> event was sent.
\<close>

definition barrier_inv :: "config \<Rightarrow> state \<Rightarrow> bool" where
  "barrier_inv c s =
     ((dlSub s = Active \<longrightarrow> \<not> closed s)
      \<and> (execPending s \<longrightarrow> dlSub s \<noteq> Active \<and> \<not> isDifferentPlatform c)
      \<and> (has_fail (out s) \<longrightarrow> dlSub s \<noteq> Active \<and> \<not> execPending s \<and> \<not> isDifferentPlatform c)
      \<and> (0 < fired s \<longrightarrow> probe s = ProbeDone \<and> has_fail (out s))
      \<and> (feintCalled s \<longrightarrow> probe s = ProbeDone \<or> has_fail (out s))
      \<and> fired s \<le> 1
      \<and> (buildSub s \<noteq> Idle \<longrightarrow> 0 < fired s)
      \<and> (build_started (acts s) \<longrightarrow> 0 < fired s))"

text \<open>An open stream has delivered no terminal notification.\<close>

definition term_inv :: "state \<Rightarrow> bool" where
  "term_inv s = (\<not> closed s \<longrightarrow> \<not> list_ex is_terminal (out s))"

text \<open>
  \<^verbatim>\<open>completeHead\<close> has run exactly when \<^verbatim>\<open>head:complete\<close> was delivered; while the download
  can still fail, its error handler is \<^verbatim>\<open>handleBinaryDownloadError\<close> exactly when
  \<^verbatim>\<open>completeHead\<close> has run; and no \<^verbatim>\<open>download-binary:fail\<close> was delivered before
  \<^verbatim>\<open>head:complete\<close>.
\<close>

definition head_inv :: "state \<Rightarrow> bool" where
  "head_inv s =
     ((headDone s \<longleftrightarrow> list_ex (is_ev id_head_complete) (out s))
      \<and> (dlSub s = Active \<longrightarrow> dlErrorReplaced s = headDone s)
      \<and> (dlErrorReplaced s \<longrightarrow> headDone s)
      \<and> \<not> list_ex (is_fail_ev id_download_binary_fail) (before_head_complete (out s)))"

text \<open>
  Every path the run hands to \<^verbatim>\<open>execFile\<close>, to \<^verbatim>\<open>rename\<close> and to an accepted archive entry
  is built from \<^verbatim>\<open>dir\<close> and \<^verbatim>\<open>binName\<close>, every completion is a bare \<^verbatim>\<open>complete()\<close>, and a
  completion on the native platform follows a call of \<^verbatim>\<open>execFile\<close> or of \<^verbatim>\<open>rename\<close>.
\<close>

definition names_inv :: "config \<Rightarrow> state \<Rightarrow> bool" where
  "names_inv c s =
     (list_all (\<lambda>p. p = binPath c) (exec_paths (acts s))
      \<and> list_all (\<lambda>(a, b). a = path_resolve (rt c) (dir c) (initialBinName (rt c)) \<and> b = binPath c)
           (rename_calls (acts s))
      \<and> list_all (\<lambda>t. t = path_join (rt c) (dir c) (binName c)) (entry_targets (acts s))
      \<and> list_all is_undefined (completions (out s))
      \<and> (execPending s \<longrightarrow> exec_paths (acts s) \<noteq> [])
      \<and> (renames s \<noteq> [] \<longrightarrow> rename_calls (acts s) \<noteq> [])
      \<and> (completions (out s) \<noteq> [] \<longrightarrow>
            isDifferentPlatform c \<or> exec_paths (acts s) \<noteq> [] \<or> rename_calls (acts s) \<noteq> []))"

section \<open>A concrete runtime, concrete requests and concrete runs\<close>

definition last_component :: "string \<Rightarrow> string" where
  "last_component p = rev (takeWhile (\<lambda>ch. ch \<noteq> CHR ''/'') (rev p))"

definition posix_basename :: "string \<Rightarrow> string \<Rightarrow> string" where
  "posix_basename p ext =
     (let b = last_component p in
      if suffix ext b \<and> b \<noteq> ext then take (length b - length ext) b else b)"

definition linux_rt :: runtime where
  "linux_rt =
     \<lparr>process_platform = ''linux'',
      dirname = ''/repo'',
      defaultVersion = ''0.12.3'',
      path_resolve = (\<lambda>d n. d @ ''/'' @ n),
      path_join = (\<lambda>d n. d @ ''/'' @ n),
      path_basename = posix_basename,
      inspect = (\<lambda>v. ''value''),
      inspectWithKind = (\<lambda>v. ''value''),
      to_string = (\<lambda>v. case v of JStr s \<Rightarrow> s | _ \<Rightarrow> ''value'')\<rparr>"

definition native_cfg :: config where
  "native_cfg = mk_config linux_rt ''/tmp/bin'' [] ''purs''"

definition win_opts :: "(string \<times> jsval) list" where
  "win_opts = [(''platform'', JStr ''win32'')]"

definition foreign_cfg :: config where
  "foreign_cfg = mk_config linux_rt ''/tmp/bin'' win_opts ''purs.exe''"

definition err_unsupported :: js_error where
  "err_unsupported =
     \<lparr>ename = ''Error'', emessage = ''Prebuilt `purs` binary is not provided'',
      ecode = Some ERR_UNSUPPORTED_PLATFORM, eid = None\<rparr>"

definition err_refused :: js_error where
  "err_refused =
     \<lparr>ename = ''Error'', emessage = ''connect ECONNREFUSED'',
      ecode = Some ''ECONNREFUSED'', eid = None\<rparr>"




text \<open>Three \<^verbatim>\<open>rename\<close> functions.\<close>

definition rename_to_path :: "string \<Rightarrow> jsval" where
  "rename_to_path n = JStr ''a/b''"

definition rename_to_empty :: "string \<Rightarrow> jsval" where
  "rename_to_empty n = JStr []"

definition rename_add_bin :: "string \<Rightarrow> jsval" where
  "rename_add_bin n = JStr (n @ ''.bin'')"

definition rename_opts :: "(string \<times> jsval) list" where
  "rename_opts = [(''rename'', JFun rename_add_bin)]"

definition bin_cfg :: config where
  "bin_cfg = mk_config linux_rt ''/tmp/bin'' rename_opts ''purs.bin''"

definition stack_path :: jsval where
  "stack_path = JStr ''/usr/bin/stack''"

text \<open>Two runs: the prebuilt binary is not provided for the native platform, the toolchain
  probe succeeds and the build is started; then the build completes and the binary is
  renamed.\<close>

definition fallback_inputs :: "input list" where
  "fallback_inputs =
     [DownloadError err_unsupported, WhichDone stack_path, SpawnStackDone (Inr ''1.9.3'')]"

definition build_inputs :: "input list" where
  "build_inputs = fallback_inputs @ [BuildNext id_build_complete ''done'', RenameDone None]"

text \<open>A run in which the binary is downloaded and verified.\<close>

definition download_inputs :: "input list" where
  "download_inputs = [FilterCall ''dir/purs'', DownloadComplete, ExecFileDone None]"

section \<open>The observer's methods and the two shared callbacks, field by field\<close>

lemma release_not_Active [simp]: "release x \<noteq> Active"
  by (cases x) simp_all

lemma unsub_acts_simps [simp]:
  "list_ex is_build_act (unsub_acts n x) = False"
  "concat (map exec_path (unsub_acts n x)) = []"
  "concat (map rename_call (unsub_acts n x)) = []"
  "concat (map entry_target (unsub_acts n x)) = []"
  by (simp_all add: unsub_acts_def)

lemma obs_next_fields [simp]:
  "out (obs_next e s) = (if closed s then out s else out s @ [Next e])"
  "acts (obs_next e s) = acts s"
  "closed (obs_next e s) = closed s"
  "stackCheckResult (obs_next e s) = stackCheckResult s"
  "binaryPathError (obs_next e s) = binaryPathError s"
  "feintCalled (obs_next e s) = feintCalled s"
  "fired (obs_next e s) = fired s"
  "headDone (obs_next e s) = headDone s"
  "dlErrorReplaced (obs_next e s) = dlErrorReplaced s"
  "tmpSub (obs_next e s) = tmpSub s"
  "dlSub (obs_next e s) = dlSub s"
  "buildSub (obs_next e s) = buildSub s"
  "probe (obs_next e s) = probe s"
  "prepPending (obs_next e s) = prepPending s"
  "execPending (obs_next e s) = execPending s"
  "renames (obs_next e s) = renames s"
  by (simp_all add: obs_next_def)

lemma cancel_fields [simp]:
  "out (cancelBuildOrDownloadPurescript s) = out s"
  "acts (cancelBuildOrDownloadPurescript s) =
     acts s @ unsub_acts DownloadSub (dlSub s) @ unsub_acts BuildSub (buildSub s)"
  "closed (cancelBuildOrDownloadPurescript s) = closed s"
  "stackCheckResult (cancelBuildOrDownloadPurescript s) = stackCheckResult s"
  "binaryPathError (cancelBuildOrDownloadPurescript s) = binaryPathError s"
  "feintCalled (cancelBuildOrDownloadPurescript s) = feintCalled s"
  "fired (cancelBuildOrDownloadPurescript s) = fired s"
  "headDone (cancelBuildOrDownloadPurescript s) = headDone s"
  "dlErrorReplaced (cancelBuildOrDownloadPurescript s) = dlErrorReplaced s"
  "tmpSub (cancelBuildOrDownloadPurescript s) = tmpSub s"
  "dlSub (cancelBuildOrDownloadPurescript s) = release (dlSub s)"
  "buildSub (cancelBuildOrDownloadPurescript s) = release (buildSub s)"
  "probe (cancelBuildOrDownloadPurescript s) = probe s"
  "prepPending (cancelBuildOrDownloadPurescript s) = prepPending s"
  "execPending (cancelBuildOrDownloadPurescript s) = execPending s"
  "renames (cancelBuildOrDownloadPurescript s) = renames s"
  by (simp_all add: cancelBuildOrDownloadPurescript_def)

lemma obs_error_fields [simp]:
  "out (obs_error e s) = (if closed s then out s else out s @ [Error e])"
  "acts (obs_error e s) =
     (if closed s then acts s
      else acts s @ unsub_acts DownloadSub (dlSub s) @ unsub_acts BuildSub (buildSub s))"
  "closed (obs_error e s) = True"
  "stackCheckResult (obs_error e s) = stackCheckResult s"
  "binaryPathError (obs_error e s) = binaryPathError s"
  "feintCalled (obs_error e s) = feintCalled s"
  "fired (obs_error e s) = fired s"
  "headDone (obs_error e s) = headDone s"
  "dlErrorReplaced (obs_error e s) = dlErrorReplaced s"
  "tmpSub (obs_error e s) = tmpSub s"
  "dlSub (obs_error e s) = (if closed s then dlSub s else release (dlSub s))"
  "buildSub (obs_error e s) = (if closed s then buildSub s else release (buildSub s))"
  "probe (obs_error e s) = probe s"
  "prepPending (obs_error e s) = prepPending s"
  "execPending (obs_error e s) = execPending s"
  "renames (obs_error e s) = renames s"
  by (simp_all add: obs_error_def)

lemma obs_complete_fields [simp]:
  "out (obs_complete s) = (if closed s then out s else out s @ [Complete JUndefined])"
  "acts (obs_complete s) =
     (if closed s then acts s
      else acts s @ unsub_acts DownloadSub (dlSub s) @ unsub_acts BuildSub (buildSub s))"
  "closed (obs_complete s) = True"
  "stackCheckResult (obs_complete s) = stackCheckResult s"
  "binaryPathError (obs_complete s) = binaryPathError s"
  "feintCalled (obs_complete s) = feintCalled s"
  "fired (obs_complete s) = fired s"
  "headDone (obs_complete s) = headDone s"
  "dlErrorReplaced (obs_complete s) = dlErrorReplaced s"
  "tmpSub (obs_complete s) = tmpSub s"
  "dlSub (obs_complete s) = (if closed s then dlSub s else release (dlSub s))"
  "buildSub (obs_complete s) = (if closed s then buildSub s else release (buildSub s))"
  "probe (obs_complete s) = probe s"
  "prepPending (obs_complete s) = prepPending s"
  "execPending (obs_complete s) = execPending s"
  "renames (obs_complete s) = renames s"
  by (simp_all add: obs_complete_def)

lemma unsubscribe_fields [simp]:
  "out (unsubscribe s) = out s"
  "acts (unsubscribe s) =
     (if closed s then acts s
      else acts s @ unsub_acts DownloadSub (dlSub s) @ unsub_acts BuildSub (buildSub s))"
  "closed (unsubscribe s) = True"
  "stackCheckResult (unsubscribe s) = stackCheckResult s"
  "binaryPathError (unsubscribe s) = binaryPathError s"
  "feintCalled (unsubscribe s) = feintCalled s"
  "fired (unsubscribe s) = fired s"
  "headDone (unsubscribe s) = headDone s"
  "dlErrorReplaced (unsubscribe s) = dlErrorReplaced s"
  "tmpSub (unsubscribe s) = tmpSub s"
  "dlSub (unsubscribe s) = (if closed s then dlSub s else release (dlSub s))"
  "buildSub (unsubscribe s) = (if closed s then buildSub s else release (buildSub s))"
  "probe (unsubscribe s) = probe s"
  "prepPending (unsubscribe s) = prepPending s"
  "execPending (unsubscribe s) = execPending s"
  "renames (unsubscribe s) = renames s"
  by (simp_all add: unsubscribe_def)


lemma startBuildIfNeeded_same [simp]:
  "stackCheckResult (startBuildIfNeeded c s) = stackCheckResult s"
  "binaryPathError (startBuildIfNeeded c s) = binaryPathError s"
  "headDone (startBuildIfNeeded c s) = headDone s"
  "dlErrorReplaced (startBuildIfNeeded c s) = dlErrorReplaced s"
  "tmpSub (startBuildIfNeeded c s) = tmpSub s"
  "probe (startBuildIfNeeded c s) = probe s"
  "prepPending (startBuildIfNeeded c s) = prepPending s"
  "execPending (startBuildIfNeeded c s) = execPending s"
  "renames (startBuildIfNeeded c s) = renames s"
  by (simp_all add: startBuildIfNeeded_def startBuild_def startBuild_body_def sendError_def Let_def
        split: option.splits)

lemma startBuildIfNeeded_fields [simp]:
  "out (startBuildIfNeeded c s) =
     (if closed s \<or> \<not> feintCalled s then out s
      else (case serror (stackCheckResult s) of
              Some e \<Rightarrow> out s @ [Error (addId e id_check_stack)]
            | None \<Rightarrow> out s @ [Next (EvStack id_check_stack (spath (stackCheckResult s))
                                          (sversion (stackCheckResult s))),
                                 Next (Ev id_check_stack_complete)]))"
  "closed (startBuildIfNeeded c s) =
     (closed s \<or> feintCalled s \<and> serror (stackCheckResult s) \<noteq> None)"
  "fired (startBuildIfNeeded c s) =
     (if closed s \<or> \<not> feintCalled s then fired s else Suc (fired s))"
  "feintCalled (startBuildIfNeeded c s) = (feintCalled s \<or> \<not> closed s)"
  "acts (startBuildIfNeeded c s) =
     (if closed s \<or> \<not> feintCalled s then acts s
      else (case serror (stackCheckResult s) of
              Some e \<Rightarrow> acts s @ unsub_acts DownloadSub (dlSub s) @ unsub_acts BuildSub (buildSub s)
            | None \<Rightarrow> acts s @ [ABuild (dir c) (buildOptions c)]))"
  "dlSub (startBuildIfNeeded c s) =
     (if \<not> closed s \<and> feintCalled s \<and> serror (stackCheckResult s) \<noteq> None
      then release (dlSub s) else dlSub s)"
  "buildSub (startBuildIfNeeded c s) =
     (if closed s \<or> \<not> feintCalled s then buildSub s
      else (case serror (stackCheckResult s) of
              Some e \<Rightarrow> release (buildSub s)
            | None \<Rightarrow> Active))"
  by (auto simp: startBuildIfNeeded_def startBuild_def startBuild_body_def sendError_def Let_def
        split: option.splits)

lemma completeHead_same [simp]:
  "stackCheckResult (completeHead s) = stackCheckResult s"
  "binaryPathError (completeHead s) = binaryPathError s"
  "feintCalled (completeHead s) = feintCalled s"
  "fired (completeHead s) = fired s"
  "tmpSub (completeHead s) = tmpSub s"
  "probe (completeHead s) = probe s"
  "prepPending (completeHead s) = prepPending s"
  "execPending (completeHead s) = execPending s"
  "renames (completeHead s) = renames s"
  by (simp_all add: completeHead_def sendError_def Let_def split: option.splits)

lemma completeHead_fields [simp]:
  "headDone (completeHead s) = True"
  "out (completeHead s) =
     (if headDone s \<or> closed s then out s
      else (case binaryPathError s of
              Some e \<Rightarrow> out s @ [Next (Ev id_head_complete), Error (addId e id_download_binary)]
            | None \<Rightarrow> out s @ [Next (Ev id_head_complete)]))"
  "closed (completeHead s) = (closed s \<or> \<not> headDone s \<and> binaryPathError s \<noteq> None)"
  "dlErrorReplaced (completeHead s) =
     (if headDone s \<or> binaryPathError s \<noteq> None then dlErrorReplaced s else True)"
  "acts (completeHead s) =
     (if \<not> headDone s \<and> \<not> closed s \<and> binaryPathError s \<noteq> None
      then acts s @ unsub_acts DownloadSub (dlSub s) @ unsub_acts BuildSub (buildSub s)
      else acts s)"
  "dlSub (completeHead s) =
     (if \<not> headDone s \<and> \<not> closed s \<and> binaryPathError s \<noteq> None
      then release (dlSub s) else dlSub s)"
  "buildSub (completeHead s) =
     (if \<not> headDone s \<and> \<not> closed s \<and> binaryPathError s \<noteq> None
      then release (buildSub s) else buildSub s)"
  by (auto simp: completeHead_def sendError_def Let_def split: option.splits)

lemmas handler_defs = sendError_def
  build_next_def rename_done_def build_error_def which_done_def spawn_done_def
  handleBinaryDownloadError_def download_next_def download_error_initial_def
  download_error_def download_complete_def exec_done_def
  prepare_done_def filter_call_def

lemma ids_distinct:
  "id_head_complete \<noteq> id_head"
  "id_head_complete \<noteq> id_check_stack_complete"
  "id_head_complete \<noteq> id_download_binary_complete"
  "id_head_complete \<noteq> id_check_binary"
  "id_head_complete \<noteq> id_check_binary_complete"
  "id_download_binary_fail \<noteq> id_head_fail"
  "id_download_binary_fail \<noteq> id_check_binary_fail"
  by (simp_all add: id_head_complete_def id_head_def id_check_stack_complete_def
        id_download_binary_complete_def id_check_binary_def id_check_binary_complete_def
        id_download_binary_fail_def id_head_fail_def id_check_binary_fail_def)

lemma run_Nil: "run c s [] = s"
  by (simp add: run_def)

lemma run_Cons: "run c s (i # ins) = run c (step c s i) ins"
  by (simp add: run_def)

lemmas run_simps = run_Nil run_Cons

lemma run_append: "run c s (xs @ ys) = run c (run c s xs) ys"
  by (simp add: run_def)

text \<open>A closed stream stays closed and receives nothing more.\<close>

lemma closed_step: "closed s \<Longrightarrow> closed (step c s i)"
  by (cases i)
     (auto simp: handler_defs Let_def split: option.splits sum.splits list.splits prod.splits)

lemma closed_out: "closed s \<Longrightarrow> out (step c s i) = out s"
  by (cases i)
     (auto simp: handler_defs Let_def split: option.splits sum.splits list.splits prod.splits)

lemma closed_fired: "closed s \<Longrightarrow> fired (step c s i) = fired s"
  by (cases i)
     (auto simp: handler_defs Let_def split: option.splits sum.splits list.splits prod.splits)

lemma closed_out_run: "closed s \<Longrightarrow> out (run c s ins) = out s"
  by (induction ins arbitrary: s) (simp_all add: run_simps closed_step closed_out)

lemma closed_fired_run: "closed s \<Longrightarrow> fired (run c s ins) = fired s"
  by (induction ins arbitrary: s) (simp_all add: run_simps closed_step closed_fired)



text \<open>A subscription that is not live never becomes live again, and a closed stream starts
  no build.\<close>

lemma dlSub_not_Active_step: "dlSub s \<noteq> Active \<Longrightarrow> dlSub (step c s i) \<noteq> Active"
  by (cases i)
     (auto simp: handler_defs Let_def split: option.splits sum.splits list.splits prod.splits)

lemma closed_buildSub_step:
  "closed s \<Longrightarrow> buildSub s \<noteq> Active \<Longrightarrow> buildSub (step c s i) \<noteq> Active"
  by (cases i)
     (auto simp: handler_defs Let_def split: option.splits sum.splits list.splits prod.splits)

lemma released_run:
  "closed s \<Longrightarrow> dlSub s \<noteq> Active \<Longrightarrow> buildSub s \<noteq> Active \<Longrightarrow>
     dlSub (run c s ins) \<noteq> Active \<and> buildSub (run c s ins) \<noteq> Active"
  by (induction ins arbitrary: s)
     (simp_all add: run_simps closed_step dlSub_not_Active_step closed_buildSub_step)

text \<open>The invariants hold initially and are kept by every step.\<close>

lemma barrier_inv_init: "barrier_inv c (init c)"
  by (simp add: barrier_inv_def init_def has_fail_def build_started_def)

lemma barrier_inv_step: "barrier_inv c s \<Longrightarrow> barrier_inv c (step c s i)"
  unfolding barrier_inv_def has_fail_def build_started_def
  by (cases i)
     (auto simp: handler_defs Let_def split: option.splits sum.splits list.splits prod.splits)

lemma barrier_inv_run: "barrier_inv c s \<Longrightarrow> barrier_inv c (run c s ins)"
  by (induction ins arbitrary: s) (simp_all add: run_simps barrier_inv_step)

lemma term_inv_init: "term_inv (init c)"
  by (simp add: term_inv_def init_def)

lemma term_inv_step: "term_inv s \<Longrightarrow> term_inv (step c s i)"
  unfolding term_inv_def
  by (cases i)
     (auto simp: handler_defs Let_def split: option.splits sum.splits list.splits prod.splits)

lemma term_inv_run: "term_inv s \<Longrightarrow> term_inv (run c s ins)"
  by (induction ins arbitrary: s) (simp_all add: run_simps term_inv_step)

lemma before_head_complete_simps [simp]:
  "before_head_complete [] = []"
  "before_head_complete (n # ns) =
     (if is_ev id_head_complete n then [] else n # before_head_complete ns)"
  by (simp_all add: before_head_complete_def)

lemma before_head_complete_append:
  "before_head_complete (xs @ ys) =
     (if list_ex (is_ev id_head_complete) xs then before_head_complete xs
      else xs @ before_head_complete ys)"
  by (induction xs) simp_all

lemma before_head_complete_all:
  "\<not> list_ex (is_ev id_head_complete) xs \<Longrightarrow> before_head_complete xs = xs"
  by (induction xs) simp_all

lemma head_inv_init: "head_inv (init c)"
  by (simp add: head_inv_def init_def ids_distinct)

lemma head_inv_step:
  "dlSub s = Active \<longrightarrow> \<not> closed s \<Longrightarrow> head_inv s \<Longrightarrow> head_inv (step c s i)"
  unfolding head_inv_def
  by (cases i)
     (auto simp: handler_defs Let_def before_head_complete_append before_head_complete_all
             ids_distinct
           split: option.splits sum.splits list.splits prod.splits)

lemma head_inv_run: "barrier_inv c s \<Longrightarrow> head_inv s \<Longrightarrow> head_inv (run c s ins)"
proof (induction ins arbitrary: s)
  case Nil
  then show ?case by (simp add: run_simps)
next
  case (Cons i ins)
  from Cons.prems(1) have "dlSub s = Active \<longrightarrow> \<not> closed s"
    by (simp add: barrier_inv_def)
  then have "head_inv (step c s i)"
    using Cons.prems(2) by (rule head_inv_step)
  moreover have "barrier_inv c (step c s i)"
    using Cons.prems(1) by (rule barrier_inv_step)
  ultimately show ?case
    using Cons.IH by (simp add: run_simps)
qed

lemma names_inv_init: "names_inv c (init c)"
  by (simp add: names_inv_def init_def exec_paths_def rename_calls_def entry_targets_def
        completions_def)

lemma exec_paths_step:
  "list_all (\<lambda>p. p = binPath c) (exec_paths (acts s)) \<Longrightarrow>
     list_all (\<lambda>p. p = binPath c) (exec_paths (acts (step c s i)))"
  unfolding exec_paths_def
  by (cases i)
     (auto simp: handler_defs Let_def split: option.splits sum.splits list.splits prod.splits)

lemma rename_calls_step:
  "list_all (\<lambda>(a, b). a = path_resolve (rt c) (dir c) (initialBinName (rt c)) \<and> b = binPath c)
     (rename_calls (acts s)) \<Longrightarrow>
   list_all (\<lambda>(a, b). a = path_resolve (rt c) (dir c) (initialBinName (rt c)) \<and> b = binPath c)
     (rename_calls (acts (step c s i)))"
  unfolding rename_calls_def
  by (cases i)
     (auto simp: handler_defs Let_def split: option.splits sum.splits list.splits prod.splits)

lemma entry_targets_step:
  "list_all (\<lambda>t. t = path_join (rt c) (dir c) (binName c)) (entry_targets (acts s)) \<Longrightarrow>
   list_all (\<lambda>t. t = path_join (rt c) (dir c) (binName c)) (entry_targets (acts (step c s i)))"
  unfolding entry_targets_def
  by (cases i)
     (auto simp: handler_defs Let_def split: option.splits sum.splits list.splits prod.splits)

lemma completions_step:
  "list_all is_undefined (completions (out s)) \<Longrightarrow>
   list_all is_undefined (completions (out (step c s i)))"
  unfolding completions_def
  by (cases i)
     (auto simp: handler_defs Let_def split: option.splits sum.splits list.splits prod.splits)

lemma pending_calls_step:
  "(execPending s \<longrightarrow> exec_paths (acts s) \<noteq> []) \<and> (renames s \<noteq> [] \<longrightarrow> rename_calls (acts s) \<noteq> []) \<Longrightarrow>
   (execPending (step c s i) \<longrightarrow> exec_paths (acts (step c s i)) \<noteq> [])
   \<and> (renames (step c s i) \<noteq> [] \<longrightarrow> rename_calls (acts (step c s i)) \<noteq> [])"
  unfolding exec_paths_def rename_calls_def
  by (cases i)
     (auto simp: handler_defs Let_def split: option.splits sum.splits list.splits prod.splits)

lemma completion_cause_step:
  "(execPending s \<longrightarrow> exec_paths (acts s) \<noteq> []) \<and> (renames s \<noteq> [] \<longrightarrow> rename_calls (acts s) \<noteq> []) \<Longrightarrow>
   (completions (out s) \<noteq> [] \<longrightarrow>
      isDifferentPlatform c \<or> exec_paths (acts s) \<noteq> [] \<or> rename_calls (acts s) \<noteq> []) \<Longrightarrow>
   (completions (out (step c s i)) \<noteq> [] \<longrightarrow>
      isDifferentPlatform c \<or> exec_paths (acts (step c s i)) \<noteq> []
      \<or> rename_calls (acts (step c s i)) \<noteq> [])"
  unfolding exec_paths_def rename_calls_def completions_def
  by (cases i)
     (auto simp: handler_defs Let_def split: option.splits sum.splits list.splits prod.splits)

lemma names_inv_step: "names_inv c s \<Longrightarrow> names_inv c (step c s i)"
  unfolding names_inv_def
  using exec_paths_step [of c s i] rename_calls_step [of c s i] entry_targets_step [of c s i]
    completions_step [of s c i] pending_calls_step [of s c i] completion_cause_step [of s c i]
  by blast

lemma names_inv_run: "names_inv c s \<Longrightarrow> names_inv c (run c s ins)"
  by (induction ins arbitrary: s) (simp_all add: run_simps names_inv_step)






section \<open>The subscriber function: validation and the first event\<close>

lemma check_bin_name_Inr: "check_bin_name r b = Inr n \<longleftrightarrow> b = JStr n \<and> n \<noteq> []"
  by (cases b) (auto simp: check_bin_name_def)

lemma check_bin_name_Inl:
  "(\<exists>e. check_bin_name r b = Inl e) \<longleftrightarrow> (\<forall>n. b = JStr n \<longrightarrow> n = [])"
  by (cases b) (auto simp: check_bin_name_def)

lemma subscribe_Started:
  "subscribe r args = Started c s0 \<Longrightarrow>
     \<exists>d opts n. check_args r args = Inr (d, opts)
       \<and> renamed opts (default_bin_name r opts) = JStr n \<and> n \<noteq> []
       \<and> c = mk_config r d opts n \<and> s0 = init c"
  by (auto simp: subscribe_def check_bin_name_Inr split: sum.splits prod.splits)

lemmas config_defs = mk_config_def is_different_platform_def build_options_def
  default_bin_name_def getPlatformBinName_def js_or_def get_prop_def

lemma native_cfg_fields:
  "rt native_cfg = linux_rt"
  "dir native_cfg = ''/tmp/bin''"
  "isDifferentPlatform native_cfg = False"
  "binName native_cfg = ''purs''"
  "binPath native_cfg = ''/tmp/bin/purs''"
  by (simp_all add: native_cfg_def config_defs linux_rt_def)

lemma foreign_cfg_fields:
  "rt foreign_cfg = linux_rt"
  "dir foreign_cfg = ''/tmp/bin''"
  "isDifferentPlatform foreign_cfg = True"
  "binName foreign_cfg = ''purs.exe''"
  "binPath foreign_cfg = ''/tmp/bin/purs.exe''"
  by (simp_all add: foreign_cfg_def win_opts_def config_defs linux_rt_def)

lemma subscribe_native:
  "subscribe linux_rt [JStr ''/tmp/bin''] = Started native_cfg (init native_cfg)"
  by (simp add: subscribe_def check_args_def check_bin_name_def renamed_def native_cfg_def
        default_bin_name_def getPlatformBinName_def js_or_def get_prop_def linux_rt_def)

lemmas eval_defs = init_def obs_next_def obs_error_def obs_complete_def unsubscribe_def
  cancelBuildOrDownloadPurescript_def unsub_acts_def sendError_def addId_def
  startBuild_body_def startBuild_def startBuildIfNeeded_def
  build_next_def rename_done_def build_error_def which_done_def spawn_done_def
  handleBinaryDownloadError_def download_next_def download_error_initial_def
  download_error_def download_complete_def exec_done_def completeHead_def
  prepare_done_def filter_call_def Let_def run_simps



text \<open>
  C9, as amended. The request is validated synchronously in the subscriber function. The
  result of the \<^verbatim>\<open>rename\<close> function is rejected, with an error thrown before any progress
  event, exactly when it is not a string or is the empty string; nothing else about it is
  checked, so a name with a path separator or a control character is accepted. When the
  result is checked, the subscription that has the build options validated was already
  made.
\<close>

theorem rename_result_checked:
  assumes "check_args r args = Inr (d, opts)"
  shows "((\<exists>e a. subscribe r args = Thrown e a)
           \<longleftrightarrow> (\<forall>n. renamed opts (default_bin_name r opts) = JStr n \<longrightarrow> n = []))
    \<and> (\<forall>e a. subscribe r args = Thrown e a \<longrightarrow>
           delivered (subscribe r args) = [Error e]
           \<and> a = [ABuildValidate (dirname r)
                    (build_options r opts
                       (js_or (get_prop opts ''version'') (JStr (defaultVersion r)))),
                  ASetImmediate])"
proof -
  have "(\<exists>e a. subscribe r args = Thrown e a)
          \<longleftrightarrow> (\<exists>e. check_bin_name r (renamed opts (default_bin_name r opts)) = Inl e)"
    using assms by (auto simp: subscribe_def split: sum.splits)
  then have "(\<exists>e a. subscribe r args = Thrown e a)
          \<longleftrightarrow> (\<forall>n. renamed opts (default_bin_name r opts) = JStr n \<longrightarrow> n = [])"
    by (simp only: check_bin_name_Inl)
  moreover have "\<forall>e a. subscribe r args = Thrown e a \<longrightarrow>
           delivered (subscribe r args) = [Error e]
           \<and> a = [ABuildValidate (dirname r)
                    (build_options r opts
                       (js_or (get_prop opts ''version'') (JStr (defaultVersion r)))),
                  ASetImmediate]"
    using assms by (auto simp: subscribe_def split: sum.splits)
  ultimately show ?thesis
    by blast
qed

lemma check_args_empty_rename:
  "check_args linux_rt [JStr ''/tmp/bin'', JObj [(''rename'', JFun rename_to_empty)]]
     = Inr (''/tmp/bin'', [(''rename'', JFun rename_to_empty)])"
  by (simp add: check_args_def check_options_def arg_options_def get_prop_def
        unsupportedOptions_def)

theorem rename_result_checked_witness:
  "check_args linux_rt [JStr ''/tmp/bin'', JObj [(''rename'', JFun rename_to_empty)]]
     = Inr (''/tmp/bin'', [(''rename'', JFun rename_to_empty)])
   \<and> (\<exists>e a. subscribe linux_rt [JStr ''/tmp/bin'', JObj [(''rename'', JFun rename_to_empty)]]
               = Thrown e a)"
proof -
  have "\<forall>n. renamed [(''rename'', JFun rename_to_empty)]
               (default_bin_name linux_rt [(''rename'', JFun rename_to_empty)]) = JStr n
             \<longrightarrow> n = []"
    by (simp add: renamed_def get_prop_def rename_to_empty_def)
  with rename_result_checked [OF check_args_empty_rename] check_args_empty_rename
  show ?thesis
    by blast
qed

theorem rename_separator_accepted:
  "renamed [(''rename'', JFun rename_to_path)] ''purs'' = JStr ''a/b''
   \<and> CHR ''/'' \<in> set ''a/b''
   \<and> delivered (subscribe linux_rt [JStr ''/tmp/bin'', JObj [(''rename'', JFun rename_to_path)]])
       = [Next (Ev id_head)]"
  by (simp add: renamed_def get_prop_def rename_to_path_def subscribe_def check_args_def
        check_options_def arg_options_def unsupportedOptions_def check_bin_name_def init_def)

section \<open>Where the binary ends up\<close>

lemma mk_config_fields:
  "rt (mk_config r d opts n) = r"
  "dir (mk_config r d opts n) = d"
  "options (mk_config r d opts n) = opts"
  "binName (mk_config r d opts n) = n"
  "binPath (mk_config r d opts n) = path_resolve r d n"
  "defaultBinName (mk_config r d opts n) = default_bin_name r opts"
  "isDifferentPlatform (mk_config r d opts n) = is_different_platform r opts"
  by (simp_all add: mk_config_def Let_def)

lemma bin_cfg_fields:
  "rt bin_cfg = linux_rt"
  "dir bin_cfg = ''/tmp/bin''"
  "isDifferentPlatform bin_cfg = False"
  "binName bin_cfg = ''purs.bin''"
  "binPath bin_cfg = ''/tmp/bin/purs.bin''"
  by (simp_all add: bin_cfg_def rename_opts_def config_defs linux_rt_def)

lemma subscribe_bin:
  "subscribe linux_rt [JStr ''/tmp/bin'', JObj rename_opts] = Started bin_cfg (init bin_cfg)"
  by (simp add: subscribe_def check_args_def check_options_def arg_options_def
        unsupportedOptions_def check_bin_name_def renamed_def bin_cfg_def rename_opts_def
        rename_add_bin_def default_bin_name_def getPlatformBinName_def js_or_def get_prop_def
        linux_rt_def)

lemma run_build_bin:
  "out (run bin_cfg (init bin_cfg) build_inputs) =
     [Next (Ev id_head), Next (EvFail id_head_fail (addId err_unsupported id_head)),
      Next (EvStack id_check_stack stack_path ''1.9.3''), Next (Ev id_check_stack_complete),
      Next (EvProgress id_build_complete ''done''), Complete JUndefined]"
  "rename_calls (acts (run bin_cfg (init bin_cfg) build_inputs)) =
     [(''/tmp/bin/purs'', ''/tmp/bin/purs.bin'')]"
  by (simp_all add: build_inputs_def fallback_inputs_def eval_defs bin_cfg_fields
        err_unsupported_def rename_calls_def initialBinName_def getPlatformBinName_def
        linux_rt_def)

text \<open>
  C1, as amended. Every successful termination is a bare completion: no value is delivered
  with it. The final binary path is \<^verbatim>\<open>resolve(dir, binName)\<close>, where \<^verbatim>\<open>binName\<close> is the
  \<^verbatim>\<open>rename\<close> function (if given) applied to the platform's default name. On the download
  branch each accepted archive entry is written to \<^verbatim>\<open>join(dir, binName)\<close> and the file
  verified is the final binary path; on the build branch the built binary
  \<^verbatim>\<open>resolve(dir, initialBinName)\<close> is renamed to the final binary path; and a completion on
  the native platform comes after one of these two calls.
\<close>

theorem final_binary_path:
  assumes "subscribe r args = Started c s0" and "s = run c s0 ins"
  shows "binPath c = path_resolve r (dir c) (binName c)
    \<and> renamed (options c) (defaultBinName c) = JStr (binName c)
    \<and> defaultBinName c =
        getPlatformBinName (js_or (get_prop (options c) ''platform'') (JStr (process_platform r)))
    \<and> list_all is_undefined (completions (out s))
    \<and> list_all (\<lambda>p. p = binPath c) (exec_paths (acts s))
    \<and> list_all (\<lambda>(a, b). a = path_resolve r (dir c) (initialBinName r) \<and> b = binPath c)
          (rename_calls (acts s))
    \<and> list_all (\<lambda>t. t = path_join r (dir c) (binName c)) (entry_targets (acts s))
    \<and> (completions (out s) \<noteq> [] \<longrightarrow>
          isDifferentPlatform c \<or> exec_paths (acts s) \<noteq> [] \<or> rename_calls (acts s) \<noteq> [])"
proof -
  from assms(1) obtain d opts n where
    n: "renamed opts (default_bin_name r opts) = JStr n" and
    c: "c = mk_config r d opts n" and s0: "s0 = init c"
    using subscribe_Started by blast
  have "names_inv c s"
    unfolding assms(2) s0 by (rule names_inv_run) (rule names_inv_init)
  then show ?thesis
    using n by (simp add: names_inv_def c mk_config_fields default_bin_name_def)
qed

theorem final_binary_path_witness:
  "subscribe linux_rt [JStr ''/tmp/bin'', JObj rename_opts] = Started bin_cfg (init bin_cfg)
   \<and> binPath bin_cfg = ''/tmp/bin/purs.bin''
   \<and> rename_calls (acts (run bin_cfg (init bin_cfg) build_inputs))
       = [(''/tmp/bin/purs'', ''/tmp/bin/purs.bin'')]
   \<and> list_all is_undefined (completions (out (run bin_cfg (init bin_cfg) build_inputs)))"
  using final_binary_path [OF subscribe_bin refl, of build_inputs] subscribe_bin
  by (simp add: run_build_bin(2) bin_cfg_fields)

theorem completion_carries_no_path:
  "subscribe linux_rt [JStr ''/tmp/bin''] = Started native_cfg (init native_cfg)
   \<and> binPath native_cfg = ''/tmp/bin/purs''
   \<and> out (run native_cfg (init native_cfg) download_inputs) =
       [Next (Ev id_head), Next (Ev id_head_complete), Next (Ev id_download_binary_complete),
        Next (Ev id_check_binary), Next (Ev id_check_binary_complete), Complete JUndefined]"
  by (simp add: subscribe_native native_cfg_fields download_inputs_def eval_defs)

section \<open>The fallback decision\<close>

lemma reachable_invs:
  "barrier_inv c (run c (init c) ins)"
  "term_inv (run c (init c) ins)"
  "head_inv (run c (init c) ins)"
  by (simp_all add: barrier_inv_run barrier_inv_init term_inv_run term_inv_init
        head_inv_run head_inv_init)

lemma run_fallback_native:
  "out (run native_cfg (init native_cfg) fallback_inputs) =
     [Next (Ev id_head), Next (EvFail id_head_fail (addId err_unsupported id_head)),
      Next (EvStack id_check_stack stack_path ''1.9.3''), Next (Ev id_check_stack_complete)]"
  "build_started (acts (run native_cfg (init native_cfg) fallback_inputs))"
  "fired (run native_cfg (init native_cfg) fallback_inputs) = 1"
  "probe (run native_cfg (init native_cfg) fallback_inputs) = ProbeDone"
  by (simp_all add: fallback_inputs_def eval_defs native_cfg_fields err_unsupported_def
        build_started_def)

text \<open>
  C3. The function wrapped by \<^verbatim>\<open>feint\<close>, the only one that can start the build, runs at
  most once in a run; when it has run, the toolchain probe has answered and one of the
  \<^verbatim>\<open>:fail\<close> events (the fallback triggers) was delivered; and it does not run after the
  consumer has unsubscribed.
\<close>

theorem barrier_fires_once:
  assumes "s = run c (init c) ins"
  shows "fired s \<le> 1
    \<and> (0 < fired s \<longrightarrow> probe s = ProbeDone \<and> has_fail (out s))
    \<and> fired (run c (step c s Unsubscribe) ins') = fired s"
proof -
  have "barrier_inv c s"
    unfolding assms by (rule reachable_invs)
  moreover have "fired (run c (unsubscribe s) ins') = fired (unsubscribe s)"
    by (rule closed_fired_run) simp
  ultimately show ?thesis
    by (simp add: barrier_inv_def run_simps)
qed

theorem barrier_fires_once_witness:
  "fired (run native_cfg (init native_cfg) fallback_inputs) = 1
   \<and> probe (run native_cfg (init native_cfg) fallback_inputs) = ProbeDone
   \<and> has_fail (out (run native_cfg (init native_cfg) fallback_inputs))
   \<and> fired (run native_cfg
              (step native_cfg (run native_cfg (init native_cfg) fallback_inputs) Unsubscribe)
              [BuildNext id_build_complete ''done'', RenameDone None]) = 1"
  using barrier_fires_once [OF refl, of native_cfg fallback_inputs
      "[BuildNext id_build_complete ''done'', RenameDone None]"]
  by (simp add: run_fallback_native has_fail_def)

text \<open>
  C4, as amended. No \<^verbatim>\<open>download-binary:fail\<close> event, and so no fallback armed by one, comes
  before \<^verbatim>\<open>head:complete\<close>. A fallback armed by \<^verbatim>\<open>head:fail\<close> (the prebuilt binary is not
  provided for the native platform) is not preceded by \<^verbatim>\<open>head:complete\<close>: the build is
  started without that event.
\<close>

theorem head_complete_before_download_fail:
  assumes "s = run c (init c) ins"
  shows "\<not> list_ex (is_fail_ev id_download_binary_fail) (before_head_complete (out s))"
  using reachable_invs(3) [of c ins] by (simp add: head_inv_def assms)

theorem head_complete_before_download_fail_witness:
  "out (run native_cfg (init native_cfg) [FilterCall ''dir/purs'', DownloadError err_refused]) =
     [Next (Ev id_head), Next (Ev id_head_complete),
      Next (EvFail id_download_binary_fail (addId err_refused id_download_binary))]
   \<and> \<not> list_ex (is_fail_ev id_download_binary_fail)
         (before_head_complete
            (out (run native_cfg (init native_cfg)
                    [FilterCall ''dir/purs'', DownloadError err_refused])))"
  using head_complete_before_download_fail
          [OF refl, of native_cfg "[FilterCall ''dir/purs'', DownloadError err_refused]"]
  by (simp add: eval_defs native_cfg_fields)

theorem build_started_without_head_complete:
  "out (run native_cfg (init native_cfg) fallback_inputs) =
     [Next (Ev id_head), Next (EvFail id_head_fail (addId err_unsupported id_head)),
      Next (EvStack id_check_stack stack_path ''1.9.3''), Next (Ev id_check_stack_complete)]
   \<and> build_started (acts (run native_cfg (init native_cfg) fallback_inputs))
   \<and> \<not> list_ex (is_ev id_head_complete) (out (run native_cfg (init native_cfg) fallback_inputs))"
  by (simp add: run_fallback_native ids_distinct)




section \<open>Download failures on a foreign platform\<close>

lemma no_terminal_filter: "\<not> list_ex is_terminal xs \<Longrightarrow> terminals xs = []"
  by (induction xs) (simp_all add: terminals_def)

lemma foreign_download_error:
  assumes "isDifferentPlatform c" and "\<not> closed s" and "dlSub s = Active"
  shows "out (step c s (DownloadError err)) =
           out s @ [Error (addId err (if dlErrorReplaced s then id_download_binary else id_head))]"
    and "closed (step c s (DownloadError err))"
  using assms
  by (simp_all add: download_error_def download_error_initial_def handleBinaryDownloadError_def
        sendError_def Let_def)

text \<open>
  C2, as amended. On a foreign platform (the \<^verbatim>\<open>platform\<close> option is set and differs from
  \<^verbatim>\<open>process.platform\<close>) a failure of the download, whatever its reason, ends the stream
  with exactly one error and no build is attempted. The error is tagged \<^verbatim>\<open>download-binary\<close>
  when \<^verbatim>\<open>head:complete\<close> was delivered before the failure, and \<^verbatim>\<open>head\<close> when the download
  fails before its first archive entry is inspected.
\<close>

theorem foreign_download_failure:
  assumes "isDifferentPlatform c" and "s = run c (init c) ins" and "dlSub s = Active"
    and "s' = step c s (DownloadError err)"
  shows "\<not> list_ex is_terminal (out s)
    \<and> out s' = out s @ [Error (addId err (if list_ex (is_ev id_head_complete) (out s)
                                           then id_download_binary else id_head))]
    \<and> out (run c s' ins') = out s'
    \<and> terminals (out (run c s' ins')) =
         [Error (addId err (if list_ex (is_ev id_head_complete) (out s)
                            then id_download_binary else id_head))]
    \<and> fired (run c s' ins') = 0
    \<and> \<not> build_started (acts (run c s' ins'))"
proof -
  have b: "barrier_inv c s" and t: "term_inv s" and h: "head_inv s"
    unfolding assms(2) by (rule reachable_invs)+
  from b assms(3) have open_s: "\<not> closed s"
    by (simp add: barrier_inv_def)
  with t have no_term: "\<not> list_ex is_terminal (out s)"
    by (simp add: term_inv_def)
  from h assms(3) have tag: "dlErrorReplaced s = list_ex (is_ev id_head_complete) (out s)"
    by (simp add: head_inv_def)
  have out': "out s' = out s @ [Error (addId err (if list_ex (is_ev id_head_complete) (out s)
                                                   then id_download_binary else id_head))]"
    unfolding assms(4) using foreign_download_error(1) [OF assms(1) open_s assms(3)] tag
    by simp
  have "closed s'"
    unfolding assms(4) by (rule foreign_download_error(2) [OF assms(1) open_s assms(3)])
  then have frozen: "out (run c s' ins') = out s'"
    by (rule closed_out_run)
  have "run c s' ins' = run c (init c) (ins @ DownloadError err # ins')"
    by (simp add: assms(2,4) run_append run_simps)
  then have "barrier_inv c (run c s' ins')"
    by (simp add: reachable_invs)
  with assms(1) have "fired (run c s' ins') = 0 \<and> \<not> build_started (acts (run c s' ins'))"
    by (auto simp: barrier_inv_def)
  moreover have "terminals (out s') =
      [Error (addId err (if list_ex (is_ev id_head_complete) (out s)
                         then id_download_binary else id_head))]"
    using no_terminal_filter [OF no_term] by (simp add: out' terminals_def)
  ultimately show ?thesis
    using no_term out' frozen by simp
qed

lemma run_foreign_entry:
  "out (run foreign_cfg (init foreign_cfg) [FilterCall ''dir/purs.exe'']) =
     [Next (Ev id_head), Next (Ev id_head_complete)]"
  "dlSub (run foreign_cfg (init foreign_cfg) [FilterCall ''dir/purs.exe'']) = Active"
  by (simp_all add: eval_defs foreign_cfg_fields)

theorem foreign_download_failure_witness:
  "isDifferentPlatform foreign_cfg
   \<and> dlSub (run foreign_cfg (init foreign_cfg) [FilterCall ''dir/purs.exe'']) = Active
   \<and> out (step foreign_cfg (run foreign_cfg (init foreign_cfg) [FilterCall ''dir/purs.exe''])
            (DownloadError err_refused)) =
       [Next (Ev id_head), Next (Ev id_head_complete),
        Error (addId err_refused id_download_binary)]"
  using foreign_download_failure
          [of foreign_cfg _ "[FilterCall ''dir/purs.exe'']" _ err_refused "[]", OF _ refl _ refl]
  by (simp add: foreign_cfg_fields run_foreign_entry ids_distinct [symmetric])

theorem foreign_failure_tagged_head:
  "isDifferentPlatform foreign_cfg
   \<and> out (run foreign_cfg (init foreign_cfg) [DownloadError err_unsupported]) =
       [Next (Ev ''head''),
        Error \<lparr>ename = ''Error'', emessage = ''Prebuilt `purs` binary is not provided'',
               ecode = Some ''ERR_UNSUPPORTED_PLATFORM'', eid = Some ''head''\<rparr>]
   \<and> id_download_binary = ''download-binary''"
  by (simp add: eval_defs foreign_cfg_fields err_unsupported_def id_head_def
        ERR_UNSUPPORTED_PLATFORM_def id_download_binary_def)

section \<open>The end of the build\<close>




section \<open>Cancellation\<close>

text \<open>
  C7, as amended. Unsubscribing closes the observer and synchronously unsubscribes the
  members of \<^verbatim>\<open>subscriptions\<close>, the download subscription and, once started, the build
  subscription; these never become live again and nothing more is delivered to the
  consumer. The toolchain probe and a running verification are not released: they stay
  outstanding and their callbacks still run.
\<close>

theorem unsubscribe_releases_subscriptions:
  assumes "\<not> closed s" and "s' = step c s Unsubscribe"
  shows "closed s'
    \<and> dlSub s' \<noteq> Active \<and> buildSub s' \<noteq> Active
    \<and> probe s' = probe s \<and> execPending s' = execPending s
    \<and> acts s' = acts s @ unsub_acts DownloadSub (dlSub s) @ unsub_acts BuildSub (buildSub s)
    \<and> out (run c s' ins) = out s
    \<and> dlSub (run c s' ins) \<noteq> Active \<and> buildSub (run c s' ins) \<noteq> Active"
proof -
  have "dlSub (unsubscribe s) \<noteq> Active" and "buildSub (unsubscribe s) \<noteq> Active"
    using assms(1) by simp_all
  moreover from this have "dlSub (run c (unsubscribe s) ins) \<noteq> Active
      \<and> buildSub (run c (unsubscribe s) ins) \<noteq> Active"
    by (intro released_run) simp_all
  moreover have "out (run c (unsubscribe s) ins) = out (unsubscribe s)"
    by (rule closed_out_run) simp
  ultimately show ?thesis
    using assms(1) by (simp add: assms(2))
qed

theorem unsubscribe_releases_subscriptions_witness:
  "\<not> closed (init native_cfg)
   \<and> dlSub (step native_cfg (init native_cfg) Unsubscribe) = Released
   \<and> out (run native_cfg (step native_cfg (init native_cfg) Unsubscribe)
            [WhichDone stack_path, SpawnStackDone (Inr ''1.9.3''), DownloadComplete]) =
       [Next (Ev id_head)]"
  using unsubscribe_releases_subscriptions
          [OF _ refl, of "init native_cfg" native_cfg
             "[WhichDone stack_path, SpawnStackDone (Inr ''1.9.3''), DownloadComplete]"]
  by (simp add: init_def unsubscribe_def cancelBuildOrDownloadPurescript_def)

theorem probe_survives_unsubscribe:
  "probe (step native_cfg (init native_cfg) Unsubscribe) = WhichPending
   \<and> acts (run native_cfg (init native_cfg) [Unsubscribe, WhichDone stack_path]) =
       acts (init native_cfg) @ [AUnsubscribe DownloadSub, ASpawnStack]
   \<and> probe (run native_cfg (init native_cfg) [Unsubscribe, WhichDone stack_path]) = SpawnPending"
  by (simp add: eval_defs)

section \<open>A failure to prepare the destination\<close>



end
